theory Spec2Isabelle
  imports Complex_Main "HOL-Library.Char_ord" "HOL-Library.List_Lexorder" "HOL-Library.Multiset"
begin

section \<open>Values: exceptions and floats\<close>

text \<open>
  The embedding follows \<^verbatim>\<open>src/compare/core/algorithm.py\<close>. Every exception that the
  module or the library calls it makes can raise is a value of \<open>error\<close>; a function that
  can raise returns \<open>error + 'a\<close>, with \<open>Inl\<close> for the exception.
\<close>

datatype error = ValueError | ZeroDivisionError | IndexError | LinAlgError

text \<open>
  A Python float is a real number or NaN. Rounding, overflow and the infinities are not
  modelled: the arithmetic on finite values is exact. NaN is absorbing in arithmetic and
  every ordered comparison with NaN is false, as in IEEE 754. A double can differ from
  the exact value by a rounding error, so two scores that are equal here, or a score that
  just reaches the threshold here, need not do so in the code (\<open>0.7 + 0.2\<close> is below
  \<open>0.9\<close> in doubles). The evaluations below keep clear of that: their ties are between
  scores computed by the same operations on the same numbers, and where a threshold
  matters it is assumed a margin below the score.
\<close>

datatype pyfloat = Fl real | NaN

fun fl_add :: "pyfloat \<Rightarrow> pyfloat \<Rightarrow> pyfloat" where
  "fl_add (Fl x) (Fl y) = Fl (x + y)"
| "fl_add _ _ = NaN"

fun fl_sub :: "pyfloat \<Rightarrow> pyfloat \<Rightarrow> pyfloat" where
  "fl_sub (Fl x) (Fl y) = Fl (x - y)"
| "fl_sub _ _ = NaN"

fun fl_mul :: "pyfloat \<Rightarrow> pyfloat \<Rightarrow> pyfloat" where
  "fl_mul (Fl x) (Fl y) = Fl (x * y)"
| "fl_mul _ _ = NaN"

fun fl_lt :: "pyfloat \<Rightarrow> pyfloat \<Rightarrow> bool" where
  "fl_lt (Fl x) (Fl y) = (x < y)"
| "fl_lt _ _ = False"

fun fl_ge :: "pyfloat \<Rightarrow> pyfloat \<Rightarrow> bool" where
  "fl_ge (Fl x) (Fl y) = (y \<le> x)"
| "fl_ge _ _ = False"

text \<open>
  Division of numpy scalars never raises: \<open>0 / 0\<close> is NaN (with a RuntimeWarning).
  A non-zero numerator over zero would be an infinity; both call sites below divide a dot
  product by a product of norms, where the numerator vanishes with the denominator
  (lemma \<open>dot_eq_0_if_norms_0\<close>), so that case does not arise and is mapped to NaN too.
\<close>

definition np_divide :: "real \<Rightarrow> real \<Rightarrow> pyfloat" where
  "np_divide x y = (if y = 0 then NaN else Fl (x / y))"

definition np_clip :: "pyfloat \<Rightarrow> real \<Rightarrow> real \<Rightarrow> pyfloat" where
  "np_clip x lo hi = (case x of NaN \<Rightarrow> NaN | Fl r \<Rightarrow> Fl (min hi (max lo r)))"

section \<open>What the module takes from outside\<close>

text \<open>
  A spaCy token, as far as \<^verbatim>\<open>embed_text\<close> reads it.
\<close>

record token =
  has_vector :: bool
  vector :: "real list"

text \<open>
  The names whose values are not in the source are parameters of the embedding:
  the spaCy pipeline \<open>nlp\<close> that the module loads at import;
  \<^verbatim>\<open>np.linalg.svd\<close>, reduced to its third result, the rows of right-singular vectors,
  and \<open>None\<close> when it raises LinAlgError;
  the constant \<^verbatim>\<open>SIMILARITY_THRESHOLD\<close>, imported from the package's model module;
  which of its two behaviours the installed scipy has when a cosine distance comes
  out as NaN (see \<open>cosine\<close> below);
  and what the interpreter's \<^verbatim>\<open>list.sort\<close> makes of a list with NaN keys that is
  not in order already (see \<open>list_sort_reverse\<close> below).
\<close>

record env =
  nlp :: "string \<Rightarrow> token list"
  svd :: "real list list \<Rightarrow> real list list option"
  scipy_clamps :: bool
  SIMILARITY_THRESHOLD :: real
  sort_nan_keys :: "(string \<times> pyfloat) list \<Rightarrow> (string \<times> pyfloat) list"

section \<open>Library functions the module calls\<close>

text \<open>
  The functions of this section are not code of the repository. Each is written from the
  documented behaviour of the library function the module imports, as far as the module
  uses it, so that the module's own functions can be evaluated on concrete inputs.
\<close>

subsection \<open>numpy and scipy on dense vectors\<close>

definition np_dot :: "real list \<Rightarrow> real list \<Rightarrow> real" where
  "np_dot u v = sum_list (map2 (*) u v)"

definition np_norm :: "real list \<Rightarrow> real" where
  "np_norm v = sqrt (np_dot v v)"

text \<open>
  \<^verbatim>\<open>ndarray.size\<close> of \<^verbatim>\<open>np.array(rows)\<close>: the number of elements, \<open>0\<close> for an empty
  list of rows.
\<close>

definition np_size :: "real list list \<Rightarrow> nat" where
  "np_size m = length (concat m)"

text \<open>
  \<^verbatim>\<open>scipy.spatial.distance.cosine(u, v)\<close>: the cosine distance
  \<open>1 - u\<cdot>v / sqrt ((u\<cdot>u) * (v\<cdot>v))\<close>, kept within \<open>[0, 2]\<close>. Vectors of different lengths
  raise ValueError. With a zero vector the quotient is \<open>0 / 0\<close> and the distance before
  the last step is NaN. scipy releases differ in the last step: those that clip with
  \<^verbatim>\<open>np.clip\<close> (and the old ones that do not clip) return the NaN; those that clamp with
  Python's \<^verbatim>\<open>max(0, min(d, 2.0))\<close> return \<open>0\<close>, since both comparisons with NaN are
  false. On every other value the two agree.
\<close>

definition py_clamp :: "pyfloat \<Rightarrow> pyfloat" where
  "py_clamp x = (case x of NaN \<Rightarrow> Fl 0 | Fl r \<Rightarrow> Fl (max 0 (min r 2)))"

definition cosine :: "env \<Rightarrow> real list \<Rightarrow> real list \<Rightarrow> error + pyfloat" where
  "cosine e u v =
     (if length u \<noteq> length v then Inl ValueError
      else
        let uv = np_dot u v; uu = np_dot u u; vv = np_dot v v;
            d = fl_sub (Fl 1) (np_divide uv (sqrt (uu * vv)))
        in Inr (if scipy_clamps e then py_clamp d else np_clip d 0 2))"

subsection \<open>Levenshtein.distance\<close>

text \<open>
  The classic edit distance with unit costs for insertion, deletion and substitution.
\<close>

fun levenshtein_distance :: "'a list \<Rightarrow> 'a list \<Rightarrow> nat" where
  "levenshtein_distance [] ys = length ys"
| "levenshtein_distance xs [] = length xs"
| "levenshtein_distance (x # xs) (y # ys) =
     min (min (levenshtein_distance xs (y # ys) + 1) (levenshtein_distance (x # xs) ys + 1))
         (levenshtein_distance xs ys + (if x = y then 0 else 1))"

subsection \<open>sklearn's TfidfVectorizer(analyzer='char', ngram\_range=(3, 5))\<close>

text \<open>
  A text is a list of characters read as the code points 0 to 255 (Latin-1); a text with
  a code point beyond 255 is outside the type, and nothing below is about such texts.

  The preprocessor lower-cases the document (\<^verbatim>\<open>lowercase=True\<close> is the default).
  \<^verbatim>\<open>str.lower\<close> on these code points: \<open>A\<close> to \<open>Z\<close>, and the capital letters
  \<open>0xC0\<close> to \<open>0xDE\<close> other than the multiplication sign \<open>0xD7\<close>, move up by 32; every
  other code point stays, and the length of the text is unchanged.
\<close>

definition lower_char :: "char \<Rightarrow> char" where
  "lower_char c =
     (let n = (of_char c :: nat)
      in if (65 \<le> n \<and> n \<le> 90) \<or> (192 \<le> n \<and> n \<le> 222 \<and> n \<noteq> 215) then char_of (n + 32)
         else c)"

definition lower :: "string \<Rightarrow> string" where
  "lower s = map lower_char s"

text \<open>
  The code points up to 255 that \<^verbatim>\<open>\s\<close> matches in a \<^verbatim>\<open>str\<close> pattern: tab, line
  feed, vertical tab, form feed, carriage return, the separators \<open>0x1C\<close> to \<open>0x1F\<close>, space,
  next line \<open>0x85\<close> and no-break space \<open>0xA0\<close>.
\<close>

definition is_space :: "char \<Rightarrow> bool" where
  "is_space c =
     (let n = (of_char c :: nat)
      in (9 \<le> n \<and> n \<le> 13) \<or> (28 \<le> n \<and> n \<le> 32) \<or> n = 133 \<or> n = 160)"

text \<open>
  \<^verbatim>\<open>re.compile(r"\s\s+").sub(" ", text)\<close>: every maximal run of two or more
  whitespace characters becomes one space; a single whitespace character stays.
\<close>

function white_spaces_sub :: "string \<Rightarrow> string" where
  "white_spaces_sub [] = []"
| "white_spaces_sub [c] = [c]"
| "white_spaces_sub (c # d # cs) =
     (if is_space c \<and> is_space d then CHR '' '' # white_spaces_sub (dropWhile is_space cs)
      else c # white_spaces_sub (d # cs))"
  by pat_completeness auto
termination
  by (relation "measure length") (auto simp: length_dropWhile_le le_imp_less_Suc less_SucI)

text \<open>
  \<^verbatim>\<open>_char_ngrams\<close>: after whitespace normalisation, all substrings of length 3, then of
  length 4, then of length 5, each from left to right.
\<close>

definition char_ngrams :: "string \<Rightarrow> string list" where
  "char_ngrams text_document =
     (let t = white_spaces_sub text_document; text_len = length t
      in concat (map (\<lambda>n. map (\<lambda>i. take n (drop i t)) [0 ..< text_len - n + 1])
                     [3 ..< min (5 + 1) (text_len + 1)]))"

definition analyze :: "string \<Rightarrow> string list" where
  "analyze doc = char_ngrams (lower doc)"

text \<open>
  The fitted state: the feature names in sorted order (sklearn's \<^verbatim>\<open>vocabulary_\<close> maps each to its
  column) and the inverse document frequencies (\<^verbatim>\<open>idf_\<close>).
\<close>

record TfidfVectorizer =
  vocabulary :: "string list"
  idf :: "real list"

definition build_vocabulary :: "string list \<Rightarrow> string list" where
  "build_vocabulary raw_documents = sort (remdups (concat (map analyze raw_documents)))"

text \<open>Term counts of one document over the vocabulary.\<close>

definition count_row :: "string list \<Rightarrow> string \<Rightarrow> real list" where
  "count_row vocab doc = map (\<lambda>t. real (count_list (analyze doc) t)) vocab"

text \<open>
  Smoothed idf (\<^verbatim>\<open>smooth_idf=True\<close>): \<open>ln ((1 + n) / (1 + df t)) + 1\<close>, where \<open>df t\<close> is
  the number of documents that contain the term.
\<close>

definition document_frequency :: "string list \<Rightarrow> string \<Rightarrow> nat" where
  "document_frequency raw_documents t = length (filter (\<lambda>d. t \<in> set (analyze d)) raw_documents)"

definition smooth_idf :: "string list \<Rightarrow> string \<Rightarrow> real" where
  "smooth_idf raw_documents t =
     ln ((1 + real (length raw_documents)) / (1 + real (document_frequency raw_documents t))) + 1"

text \<open>Row normalisation (\<^verbatim>\<open>norm='l2'\<close>): a zero row is left as it is.\<close>

definition l2_normalize :: "real list \<Rightarrow> real list" where
  "l2_normalize row = (let n = np_norm row in if n = 0 then row else map (\<lambda>x. x / n) row)"

text \<open>
  \<^verbatim>\<open>transform([text]).toarray()[0]\<close> for a fitted vectorizer: n-grams outside the
  vocabulary are ignored.
\<close>

definition transform :: "TfidfVectorizer \<Rightarrow> string \<Rightarrow> real list" where
  "transform vectorizer doc = l2_normalize (map2 (*) (count_row (vocabulary vectorizer) doc) (idf vectorizer))"

text \<open>
  \<^verbatim>\<open>fit_transform(texts).toarray()\<close>: builds the vocabulary, raises ValueError
  (``empty vocabulary'') when no document yields a feature, fits the idf weights and
  returns the fitted vectorizer with one row per document.
\<close>

definition fit_transform :: "string list \<Rightarrow> error + (TfidfVectorizer \<times> real list list)" where
  "fit_transform raw_documents =
     (let vocab = build_vocabulary raw_documents
      in if vocab = [] then Inl ValueError
         else
           let vectorizer = \<lparr>vocabulary = vocab, idf = map (smooth_idf raw_documents) vocab\<rparr>
           in Inr (vectorizer, map (transform vectorizer) raw_documents))"

subsection \<open>list.sort(key=..., reverse=True)\<close>

text \<open>
  Python's sort is stable, also with \<^verbatim>\<open>reverse=True\<close>: where the keys are comparable,
  the elements are arranged by descending key and elements with equal keys keep their
  original order. \<open>stable_sort_reverse\<close> is that arrangement: it inserts each element, from
  the last to the first, before the first element whose key is not greater.
\<close>

fun insort_desc :: "('a \<Rightarrow> pyfloat) \<Rightarrow> 'a \<Rightarrow> 'a list \<Rightarrow> 'a list" where
  "insort_desc key x [] = [x]"
| "insort_desc key x (y # ys) =
     (if fl_lt (key x) (key y) then y # insort_desc key x ys else x # y # ys)"

definition stable_sort_reverse :: "('a \<Rightarrow> pyfloat) \<Rightarrow> 'a list \<Rightarrow> 'a list" where
  "stable_sort_reverse key xs = foldr (insort_desc key) xs []"

text \<open>
  A list is one run already when no key is less than the key after it. CPython, which
  reverses the list, sorts it ascending and reverses it again, then finds a single
  ascending run and moves nothing. Every one-element list is of that kind and, a
  comparison with NaN being false, so is a list with the keys \<open>0.9, NaN, 1\<close>.
\<close>

definition one_run :: "(string \<times> pyfloat) list \<Rightarrow> bool" where
  "one_run xs = successively (\<lambda>a b. \<not> fl_lt (snd a) (snd b)) xs"

text \<open>
  \<^verbatim>\<open>similarities.sort(key=lambda x: x[1], reverse=True)\<close>. Without a NaN key the
  result is the stable descending arrangement. A list that is one run is left as it is
  (\<open>stable_sort_reverse\<close> leaves it too, lemma \<open>stable_sort_reverse_run\<close>). On any other
  list with a NaN key the result depends on how the interpreter's merge sort detects runs
  and searches them by bisection, which is not the same in every CPython version: it is
  the parameter \<open>sort_nan_keys\<close>. Whatever the keys, \<^verbatim>\<open>list.sort\<close> returns a permutation
  of the list; a parameter value that is not one is not \<^verbatim>\<open>list.sort\<close>, and the list
  is then left as it is.
\<close>

definition list_sort_reverse :: "env \<Rightarrow> (string \<times> pyfloat) list \<Rightarrow> (string \<times> pyfloat) list" where
  "list_sort_reverse e xs =
     (if list_ex (\<lambda>p. snd p = NaN) xs \<and> \<not> one_run xs
      then (if mset (sort_nan_keys e xs) = mset xs then sort_nan_keys e xs else xs)
      else stable_sort_reverse snd xs)"

section \<open>The module: compare/core/algorithm.py\<close>

subsection \<open>The result type\<close>

text \<open>
  Modelled from the spec: \<^verbatim>\<open>ResultScore\<close> is declared in the package's model module,
  which is not among the sources. The spec gives its three fields.
\<close>

record ResultScore =
  closest :: string
  score :: pyfloat
  similar :: "string list"

subsection \<open>embed\_text and advanced\_similarity\<close>

definition embed_text :: "env \<Rightarrow> string \<Rightarrow> real list list" where
  "embed_text e text = map vector (filter has_vector (nlp e text))"

definition advanced_similarity :: "env \<Rightarrow> string \<Rightarrow> string \<Rightarrow> error + pyfloat" where
  "advanced_similarity e text1 text2 =
     (let vec1 = embed_text e text1; vec2 = embed_text e text2
      in if np_size vec1 = 0 \<or> np_size vec2 = 0 then Inr (Fl 0)
         else
           case svd e vec1 of
             None \<Rightarrow> Inl LinAlgError
           | Some v1 \<Rightarrow>
               (case svd e vec2 of
                  None \<Rightarrow> Inl LinAlgError
                | Some v2 \<Rightarrow>
                    (case v1 of
                       [] \<Rightarrow> Inl IndexError
                     | a # _ \<Rightarrow>
                         (case v2 of
                            [] \<Rightarrow> Inl IndexError
                          | b # _ \<Rightarrow>
                              if length a \<noteq> length b then Inl ValueError
                              else Inr (np_divide (np_dot a b) (np_norm a * np_norm b))))))"

subsection \<open>class TextComparer\<close>

record TextComparer =
  texts :: "string list"
  vectorizer :: TfidfVectorizer
  embeddings :: "real list list"

text \<open>
  \<^verbatim>\<open>__init__\<close> with \<^verbatim>\<open>_calculate_embeddings\<close>: the only step that can raise is
  \<^verbatim>\<open>fit_transform\<close>; the module itself checks nothing about \<open>texts\<close>.
\<close>

definition TextComparer_init :: "string list \<Rightarrow> error + TextComparer" where
  "TextComparer_init txts =
     (case fit_transform txts of
        Inl err \<Rightarrow> Inl err
      | Inr (v, rows) \<Rightarrow> Inr \<lparr>texts = txts, vectorizer = v, embeddings = rows\<rparr>)"

text \<open>
  \<^verbatim>\<open>_combined_similarity\<close>. The cosine distance is computed first, in both modes.
  \<^verbatim>\<open>lev_distance / max(len(input_text), len(text))\<close> divides two Python ints:
  ZeroDivisionError when both strings are empty.
\<close>

definition combined_similarity ::
  "env \<Rightarrow> string \<Rightarrow> string \<Rightarrow> real list \<Rightarrow> real list \<Rightarrow> bool \<Rightarrow> error + pyfloat" where
  "combined_similarity e input_text text input_embedding text_embedding advanced =
     (case cosine e input_embedding text_embedding of
        Inl err \<Rightarrow> Inl err
      | Inr d \<Rightarrow>
          let tfidf_cosine_sim = fl_sub (Fl 1) d
          in case (if advanced then advanced_similarity e input_text text
                   else Inr tfidf_cosine_sim) of
               Inl err \<Rightarrow> Inl err
             | Inr embedding_sim \<Rightarrow>
                 let lev_distance = levenshtein_distance input_text text
                 in if max (length input_text) (length text) = 0 then Inl ZeroDivisionError
                    else
                      let lev_similarity =
                            1 - real lev_distance / real (max (length input_text) (length text))
                      in Inr (fl_add (fl_mul (Fl (7 / 10)) embedding_sim)
                                     (fl_mul (Fl (3 / 10)) (Fl lev_similarity))))"

text \<open>
  The list comprehension of \<^verbatim>\<open>compare_texts\<close>: one pair per candidate, in corpus order;
  the first exception ends it.
\<close>

fun similarities_of ::
  "env \<Rightarrow> string \<Rightarrow> real list \<Rightarrow> bool \<Rightarrow> (string \<times> real list) list \<Rightarrow> error + (string \<times> pyfloat) list" where
  "similarities_of e input_text input_embedding advanced [] = Inr []"
| "similarities_of e input_text input_embedding advanced ((text, text_embedding) # rest) =
     (case combined_similarity e input_text text input_embedding text_embedding advanced of
        Inl err \<Rightarrow> Inl err
      | Inr s \<Rightarrow>
          (case similarities_of e input_text input_embedding advanced rest of
             Inl err \<Rightarrow> Inl err
           | Inr ss \<Rightarrow> Inr ((text, s) # ss)))"

text \<open>Lines 57 to 62: the list \<open>similarities\<close> before it is sorted.\<close>

definition similarities :: "env \<Rightarrow> TextComparer \<Rightarrow> string \<Rightarrow> bool \<Rightarrow> error + (string \<times> pyfloat) list" where
  "similarities e self input_text advanced =
     (let input_embedding = transform (vectorizer self) input_text
      in similarities_of e input_text input_embedding advanced (zip (texts self) (embeddings self)))"

text \<open>
  \<^verbatim>\<open>compare_texts\<close>, with the object passed in and returned: the method reads
  \<open>self.texts\<close>, \<open>self.embeddings\<close> and \<open>self.vectorizer\<close>, sorts the list it has just
  built, and assigns to no attribute. \<^verbatim>\<open>similarities[0]\<close> raises IndexError on an
  empty list.
\<close>

definition compare_texts :: "env \<Rightarrow> TextComparer \<Rightarrow> string \<Rightarrow> bool \<Rightarrow> (error + ResultScore) \<times> TextComparer" where
  "compare_texts e self input_text advanced =
     (case similarities e self input_text advanced of
        Inl err \<Rightarrow> (Inl err, self)
      | Inr sims \<Rightarrow>
          (case list_sort_reverse e sims of
             [] \<Rightarrow> (Inl IndexError, self)
           | (c, s) # rest \<Rightarrow>
               (Inr \<lparr>closest = c, score = s,
                     similar = map fst (filter (\<lambda>(text, sim_score).
                                 fl_ge sim_score (Fl (SIMILARITY_THRESHOLD e))) rest)\<rparr>,
                self)))"

section \<open>Notions the specification names\<close>

text \<open>
  The lexical similarity as the module computes it (line 76): one minus scipy's cosine
  distance of the two TF-IDF vectors.
\<close>

definition lexical_similarity :: "env \<Rightarrow> real list \<Rightarrow> real list \<Rightarrow> error + pyfloat" where
  "lexical_similarity e a b =
     (case cosine e a b of Inl err \<Rightarrow> Inl err | Inr d \<Rightarrow> Inr (fl_sub (Fl 1) d))"

text \<open>
  The edit similarity as the module computes it (lines 83 and 84): one minus the
  Levenshtein distance over the length of the longer string, an int division that raises
  when that length is zero.
\<close>

definition edit_similarity :: "string \<Rightarrow> string \<Rightarrow> error + real" where
  "edit_similarity s1 s2 =
     (if max (length s1) (length s2) = 0 then Inl ZeroDivisionError
      else Inr (1 - real (levenshtein_distance s1 s2) / real (max (length s1) (length s2))))"

text \<open>A list is in descending order of its keys.\<close>

definition descending :: "('a \<Rightarrow> pyfloat) \<Rightarrow> 'a list \<Rightarrow> bool" where
  "descending key xs = sorted_wrt (\<lambda>a b. fl_ge (key a) (key b)) xs"

text \<open>The entries of a ranked list that reach the threshold.\<close>

definition above_threshold :: "env \<Rightarrow> (string \<times> pyfloat) list \<Rightarrow> (string \<times> pyfloat) list" where
  "above_threshold e ranked = filter (\<lambda>p. fl_ge (snd p) (Fl (SIMILARITY_THRESHOLD e))) ranked"

text \<open>
  A sequence of calls of \<^verbatim>\<open>compare_texts\<close> on one object: each call runs on the object
  the call before it left behind.
\<close>

fun compare_many ::
  "env \<Rightarrow> TextComparer \<Rightarrow> (string \<times> bool) list \<Rightarrow> (error + ResultScore) list \<times> TextComparer" where
  "compare_many e self [] = ([], self)"
| "compare_many e self ((input_text, advanced) # queries) =
     (case compare_texts e self input_text advanced of
        (r, self') \<Rightarrow> (case compare_many e self' queries of (rs, self'') \<Rightarrow> (r # rs, self'')))"

section \<open>Facts about the library functions\<close>

subsection \<open>Dot products and norms\<close>

lemma np_dot_commute: "np_dot a b = np_dot b a"
proof -
  have "map2 (*) a b = map2 (*) b a" for a b :: "real list"
    by (induction a arbitrary: b) (case_tac b; simp)+
  then show ?thesis by (simp add: np_dot_def)
qed

lemma sum_squares_nonneg: "0 \<le> sum_list (map (\<lambda>x. x * x) (w :: real list))"
  by (induction w) simp_all

lemma np_dot_self_eq_0: "np_dot v v = 0 \<longleftrightarrow> (\<forall>x\<in>set v. x = 0)"
proof -
  have "map2 (*) v v = map (\<lambda>x. x * x) v"
    by (induction v) simp_all
  then have "np_dot v v = sum_list (map (\<lambda>x. x * x) v)"
    by (simp add: np_dot_def)
  also have "\<dots> = 0 \<longleftrightarrow> (\<forall>x\<in>set v. x = 0)"
    by (induction v) (simp_all add: add_nonneg_eq_0_iff sum_squares_nonneg)
  finally show ?thesis .
qed

lemma np_dot_zero_left: "\<forall>x\<in>set u. x = 0 \<Longrightarrow> np_dot u v = 0"
  unfolding np_dot_def
  by (induction u arbitrary: v) (case_tac v; simp)+

lemma np_norm_eq_0: "np_norm v = 0 \<longleftrightarrow> (\<forall>x\<in>set v. x = 0)"
  by (simp add: np_norm_def np_dot_self_eq_0)

text \<open>The numerator of a cosine vanishes whenever its denominator does.\<close>

lemma dot_eq_0_if_norms_0: "np_norm a * np_norm b = 0 \<Longrightarrow> np_dot a b = 0"
  using np_dot_zero_left [of a b] np_dot_zero_left [of b a] np_dot_commute [of a b]
  by (auto simp: np_norm_eq_0)

lemma np_clip_py_clamp: "np_clip (Fl r) 0 2 = py_clamp (Fl r)"
  by (simp add: np_clip_def py_clamp_def max_min_distrib2 min.commute max.commute)

lemma cosine_zero_norm:
  assumes "length a = length b" and "np_norm a = 0 \<or> np_norm b = 0"
  shows "cosine e a b = Inr (if scipy_clamps e then Fl 0 else NaN)"
proof -
  from assms(2) have "np_dot a a * np_dot b b = 0"
    by (auto simp: np_norm_def)
  then show ?thesis
    using assms(1) by (simp add: cosine_def Let_def np_divide_def np_clip_def py_clamp_def)
qed

lemma cosine_nonzero_norm:
  assumes "length a = length b" and "np_norm a \<noteq> 0" and "np_norm b \<noteq> 0"
  shows "\<exists>r. cosine e a b = Inr (Fl r)"
proof -
  from assms(2,3) have "sqrt (np_dot a a * np_dot b b) \<noteq> 0"
    by (simp add: np_norm_def)
  then show ?thesis
    using assms(1) by (simp add: cosine_def Let_def np_divide_def np_clip_def py_clamp_def)
qed

subsection \<open>Edit distance\<close>

lemma levenshtein_distance_self: "levenshtein_distance s s = 0"
  by (induction s) simp_all

subsection \<open>The stable descending sort\<close>

lemma fl_lt_total: "a \<noteq> NaN \<Longrightarrow> b \<noteq> NaN \<Longrightarrow> \<not> fl_lt a b \<Longrightarrow> fl_ge a b"
  by (cases a; cases b) simp_all

lemma fl_lt_imp_ge: "fl_lt a b \<Longrightarrow> fl_ge b a"
  by (cases a; cases b) simp_all

lemma fl_ge_trans: "fl_ge a b \<Longrightarrow> fl_ge b c \<Longrightarrow> fl_ge a c"
  by (cases a; cases b; cases c) simp_all

lemma fl_lt_neq: "fl_lt a b \<Longrightarrow> a \<noteq> b"
  by (cases a; cases b) simp_all

lemma mset_insort_desc: "mset (insort_desc key x ys) = add_mset x (mset ys)"
  by (induction ys) simp_all

lemma mset_stable_sort_reverse: "mset (stable_sort_reverse key xs) = mset xs"
  unfolding stable_sort_reverse_def by (induction xs) (simp_all add: mset_insort_desc)

lemma set_insort_desc: "set (insort_desc key x ys) = insert x (set ys)"
  by (induction ys) auto

lemma set_stable_sort_reverse: "set (stable_sort_reverse key xs) = set xs"
  unfolding stable_sort_reverse_def by (induction xs) (simp_all add: set_insort_desc)

lemma length_stable_sort_reverse: "length (stable_sort_reverse key xs) = length xs"
  by (metis mset_stable_sort_reverse size_mset)

lemma descending_insort_desc:
  assumes "descending key ys" "key x \<noteq> NaN" "\<forall>y\<in>set ys. key y \<noteq> NaN"
  shows "descending key (insort_desc key x ys)"
  using assms
proof (induction ys)
  case Nil
  then show ?case by (simp add: descending_def)
next
  case (Cons y ys)
  show ?case
  proof (cases "fl_lt (key x) (key y)")
    case True
    have "descending key (insort_desc key x ys)"
      using Cons by (simp add: descending_def)
    moreover have "\<forall>z\<in>set (insort_desc key x ys). fl_ge (key y) (key z)"
      using Cons.prems(1) True by (auto simp: set_insort_desc descending_def fl_lt_imp_ge)
    ultimately show ?thesis using True by (simp add: descending_def)
  next
    case False
    then have xy: "fl_ge (key x) (key y)"
      using Cons.prems by (simp add: fl_lt_total)
    then have "\<forall>z\<in>set ys. fl_ge (key x) (key z)"
      using Cons.prems(1) by (auto simp: descending_def intro: fl_ge_trans)
    then show ?thesis using False xy Cons.prems(1) by (simp add: descending_def)
  qed
qed

lemma descending_stable_sort_reverse:
  "\<forall>x\<in>set xs. key x \<noteq> NaN \<Longrightarrow> descending key (stable_sort_reverse key xs)"
proof (induction xs)
  case Nil
  then show ?case by (simp add: stable_sort_reverse_def descending_def)
next
  case (Cons x xs)
  then have "descending key (insort_desc key x (stable_sort_reverse key xs))"
    by (intro descending_insort_desc) (simp_all add: set_stable_sort_reverse)
  then show ?case by (simp add: stable_sort_reverse_def)
qed

text \<open>
  Stability: an inserted element passes only elements with a different key, so the
  elements of any one key keep their order.
\<close>

lemma filter_insort_desc:
  "filter (\<lambda>z. key z = k) (insort_desc key x ys) = filter (\<lambda>z. key z = k) (x # ys)"
proof (induction ys)
  case Nil
  then show ?case by simp
next
  case (Cons y ys)
  show ?case
  proof (cases "fl_lt (key x) (key y)")
    case True
    then have "key x \<noteq> key y" by (rule fl_lt_neq)
    then show ?thesis using True Cons by auto
  next
    case False
    then show ?thesis by simp
  qed
qed

lemma filter_stable_sort_reverse:
  "filter (\<lambda>z. key z = k) (stable_sort_reverse key xs) = filter (\<lambda>z. key z = k) xs"
  unfolding stable_sort_reverse_def
  by (induction xs) (simp_all add: filter_insort_desc)

text \<open>A list that is one run already is left as it is.\<close>

lemma stable_sort_reverse_run:
  "successively (\<lambda>a b. \<not> fl_lt (key a) (key b)) xs \<Longrightarrow> stable_sort_reverse key xs = xs"
proof (induction xs)
  case Nil
  then show ?case by (simp add: stable_sort_reverse_def)
next
  case (Cons x xs)
  show ?case
  proof (cases xs)
    case Nil
    then show ?thesis by (simp add: stable_sort_reverse_def)
  next
    case (Cons y ys)
    with Cons.prems have "\<not> fl_lt (key x) (key y)"
      and "successively (\<lambda>a b. \<not> fl_lt (key a) (key b)) xs"
      by simp_all
    with Cons.IH Cons show ?thesis
      by (simp add: stable_sort_reverse_def)
  qed
qed

lemma descending_filter: "descending key xs \<Longrightarrow> descending key (filter P xs)"
  by (simp add: descending_def sorted_wrt_filter)

lemma descending_tl: "descending key (x # xs) \<Longrightarrow> descending key xs"
  by (simp add: descending_def)

text \<open>The model of \<^verbatim>\<open>list.sort\<close> in the two cases where it is determined, and as a permutation.\<close>

lemma list_sort_reverse_finite:
  "\<forall>p\<in>set xs. snd p \<noteq> NaN \<Longrightarrow> list_sort_reverse e xs = stable_sort_reverse snd xs"
  by (simp add: list_sort_reverse_def list_ex_iff)

lemma list_sort_reverse_run: "one_run xs \<Longrightarrow> list_sort_reverse e xs = xs"
  by (simp add: list_sort_reverse_def one_run_def stable_sort_reverse_run)

lemma mset_list_sort_reverse: "mset (list_sort_reverse e xs) = mset xs"
  by (simp add: list_sort_reverse_def mset_stable_sort_reverse)

lemma length_list_sort_reverse: "length (list_sort_reverse e xs) = length xs"
  by (metis mset_list_sort_reverse size_mset)

subsection \<open>The vectorizer\<close>

lemma char_ngrams_eq_Nil: "char_ngrams t = [] \<longleftrightarrow> length (white_spaces_sub t) < 3"
proof (cases "length (white_spaces_sub t) < 3")
  case True
  then show ?thesis by (simp add: char_ngrams_def Let_def)
next
  case False
  define w where "w = white_spaces_sub t"
  define row where "row = (\<lambda>n. map (\<lambda>i. take n (drop i w)) [0 ..< length w - n + 1])"
  from False have "3 \<in> set [3 ..< min (5 + 1) (length w + 1)]"
    by (auto simp: w_def)
  then have "row 3 \<in> set (map row [3 ..< min (5 + 1) (length w + 1)])"
    unfolding set_map by (rule imageI)
  moreover have "row 3 \<noteq> []"
    by (simp add: row_def)
  ultimately have "concat (map row [3 ..< min (5 + 1) (length w + 1)]) \<noteq> []"
    unfolding concat_eq_Nil_conv by blast
  then show ?thesis
    using False by (simp add: char_ngrams_def Let_def row_def w_def)
qed

lemma length_lower: "length (lower s) = length s"
  by (simp add: lower_def)

lemma is_space_lower_char: "is_space (lower_char c) = is_space c"
proof -
  have "of_char (char_of (of_char c + 32 :: nat)) = (of_char c + 32 :: nat)"
    if "(of_char c :: nat) \<le> 222"
    using that by simp
  then show ?thesis
    by (auto simp: is_space_def lower_char_def Let_def)
qed

lemma lower_char_space: "lower_char (CHR '' '') = CHR '' ''"
  by (simp add: lower_char_def)

lemma dropWhile_is_space_lower: "dropWhile is_space (lower cs) = lower (dropWhile is_space cs)"
  by (induction cs) (simp_all add: lower_def is_space_lower_char)

text \<open>Lower-casing and whitespace normalisation commute, so lengths can be read off the raw text.\<close>

lemma white_spaces_sub_lower: "white_spaces_sub (lower t) = lower (white_spaces_sub t)"
proof (induction t rule: white_spaces_sub.induct)
  case 1
  then show ?case by (simp add: lower_def)
next
  case (2 c)
  then show ?case by (simp add: lower_def)
next
  case (3 c d cs)
  show ?case
  proof (cases "is_space c \<and> is_space d")
    case True
    then have "white_spaces_sub (lower (c # d # cs))
        = CHR '' '' # white_spaces_sub (dropWhile is_space (lower cs))"
      by (simp add: lower_def is_space_lower_char)
    also have "\<dots> = CHR '' '' # lower (white_spaces_sub (dropWhile is_space cs))"
      using 3(1) True by (simp add: dropWhile_is_space_lower)
    finally show ?thesis using True by (simp add: lower_def lower_char_space)
  next
    case False
    then have "white_spaces_sub (lower (c # d # cs))
        = lower_char c # white_spaces_sub (lower (d # cs))"
      by (auto simp: lower_def is_space_lower_char)
    then show ?thesis using 3(2) False by (auto simp: lower_def)
  qed
qed

lemma length_white_spaces_sub_lower:
  "length (white_spaces_sub (lower t)) = length (white_spaces_sub t)"
  by (simp add: white_spaces_sub_lower length_lower)

lemma analyze_eq_Nil: "analyze t = [] \<longleftrightarrow> length (white_spaces_sub (lower t)) < 3"
  by (simp add: analyze_def char_ngrams_eq_Nil)

lemma build_vocabulary_eq_Nil:
  "build_vocabulary docs = [] \<longleftrightarrow> (\<forall>t\<in>set docs. length (white_spaces_sub (lower t)) < 3)"
proof -
  have "build_vocabulary docs = [] \<longleftrightarrow> concat (map analyze docs) = []"
    unfolding build_vocabulary_def
    by (metis length_0_conv length_sort remdups_eq_nil_iff)
  then show ?thesis by (simp add: analyze_eq_Nil)
qed

lemma length_transform:
  "length (idf v) = length (vocabulary v) \<Longrightarrow> length (transform v doc) = length (vocabulary v)"
  by (simp add: transform_def l2_normalize_def count_row_def Let_def)

lemma fit_transform_rows:
  "fit_transform docs = Inr (v, rows) \<Longrightarrow> length rows = length docs \<and> docs \<noteq> []"
  by (auto simp: fit_transform_def Let_def build_vocabulary_def split: if_splits)

lemma fit_transform_lengths:
  assumes "fit_transform docs = Inr (v, rows)"
  shows "length (idf v) = length (vocabulary v) \<and> (\<forall>r\<in>set rows. length r = length (vocabulary v))"
proof -
  from assms have v: "v = \<lparr>vocabulary = build_vocabulary docs,
      idf = map (smooth_idf docs) (build_vocabulary docs)\<rparr>"
    and rows: "rows = map (transform v) docs"
    by (auto simp: fit_transform_def Let_def split: if_splits)
  from v have "length (idf v) = length (vocabulary v)" by simp
  then show ?thesis
    using rows by (auto simp: length_transform)
qed

lemma l2_normalize_single: "0 < x \<Longrightarrow> l2_normalize [x] = [1]"
  by (simp add: l2_normalize_def np_norm_def np_dot_def)

section \<open>Facts about the module's functions\<close>

lemma compare_texts_state: "snd (compare_texts e self input_text advanced) = self"
  by (simp add: compare_texts_def split: sum.splits list.splits prod.splits)

lemma similarities_of_texts:
  "similarities_of e input_text ie advanced zs = Inr sims \<Longrightarrow> map fst sims = map fst zs"
proof (induction zs arbitrary: sims)
  case Nil
  then show ?case by simp
next
  case (Cons z zs)
  then show ?case by (cases z) (auto split: sum.splits)
qed

lemma TextComparer_init_fields:
  "TextComparer_init corpus = Inr self \<Longrightarrow>
   texts self = corpus \<and> length (embeddings self) = length corpus \<and> corpus \<noteq> []"
  by (auto simp: TextComparer_init_def split: sum.splits dest: fit_transform_rows)

lemma similarities_texts:
  assumes "TextComparer_init corpus = Inr self"
      and "similarities e self input_text advanced = Inr sims"
  shows "map fst sims = corpus"
proof -
  have "map fst sims = map fst (zip (texts self) (embeddings self))"
    using assms(2) by (auto simp: similarities_def Let_def dest: similarities_of_texts)
  then show ?thesis
    using TextComparer_init_fields [OF assms(1)] by simp
qed

text \<open>Every entry of \<open>similarities\<close> is a candidate with the score \<^verbatim>\<open>_combined_similarity\<close> gives it.\<close>

lemma similarities_scores:
  assumes "similarities e self input_text advanced = Inr sims"
  shows "list_all2 (\<lambda>(text, emb) (t, s). t = text
            \<and> combined_similarity e input_text text (transform (vectorizer self) input_text) emb advanced = Inr s)
          (zip (texts self) (embeddings self)) sims"
proof -
  have "similarities_of e input_text ie advanced zs = Inr ss \<Longrightarrow>
        list_all2 (\<lambda>(text, emb) (t, s). t = text
            \<and> combined_similarity e input_text text ie emb advanced = Inr s) zs ss" for ie zs ss
  proof (induction zs arbitrary: ss)
    case Nil
    then show ?case by simp
  next
    case (Cons z zs)
    then show ?case by (cases z) (auto split: sum.splits)
  qed
  then show ?thesis
    using assms by (simp add: similarities_def Let_def)
qed

lemma compare_texts_ranked:
  assumes "similarities e self input_text advanced = Inr sims"
      and "list_sort_reverse e sims = (c, s) # rest"
  shows "fst (compare_texts e self input_text advanced)
         = Inr \<lparr>closest = c, score = s, similar = map fst (above_threshold e rest)\<rparr>"
  using assms by (simp add: compare_texts_def above_threshold_def case_prod_unfold)

lemma ranked_nonempty:
  assumes "TextComparer_init corpus = Inr self"
      and "similarities e self input_text advanced = Inr sims"
  shows "\<exists>c s rest. list_sort_reverse e sims = (c, s) # rest"
proof -
  have "length (list_sort_reverse e sims) = length corpus"
    using similarities_texts [OF assms] length_list_sort_reverse [of e sims]
    by (metis length_map)
  then have "list_sort_reverse e sims \<noteq> []"
    using TextComparer_init_fields [OF assms(1)] by auto
  then show ?thesis
    by (cases "list_sort_reverse e sims") auto
qed

lemma combined_similarity_empty:
  "length ie = length te \<Longrightarrow> combined_similarity e [] [] ie te False = Inl ZeroDivisionError"
  by (simp add: combined_similarity_def cosine_def Let_def)

lemma combined_similarity_nonempty:
  "length ie = length te \<Longrightarrow> input_text \<noteq> [] \<or> text \<noteq> [] \<Longrightarrow>
   \<exists>s. combined_similarity e input_text text ie te False = Inr s"
  by (auto simp: combined_similarity_def cosine_def Let_def)

text \<open>
  In lexical mode a query with a non-empty input always returns a result, and a score is
  finite when neither vector is zero.
\<close>

lemma similarities_of_returns:
  assumes "\<forall>z\<in>set zs. length (snd z) = length ie" and "input_text \<noteq> []"
  shows "\<exists>sims. similarities_of e input_text ie False zs = Inr sims"
  using assms(1)
proof (induction zs)
  case Nil
  then show ?case by simp
next
  case (Cons z zs)
  obtain t emb where z: "z = (t, emb)" by (cases z)
  then have "length ie = length emb" using Cons.prems by simp
  then obtain s where "combined_similarity e input_text t ie emb False = Inr s"
    using combined_similarity_nonempty [of ie emb input_text t e] assms(2) by blast
  moreover obtain sims where "similarities_of e input_text ie False zs = Inr sims"
    using Cons by auto
  ultimately show ?case using z by simp
qed

lemma compare_texts_returns:
  assumes "TextComparer_init corpus = Inr self" and "input_text \<noteq> []"
  shows "\<exists>r. fst (compare_texts e self input_text False) = Inr r"
proof -
  obtain v rows where fit: "fit_transform corpus = Inr (v, rows)"
    and self: "self = \<lparr>texts = corpus, vectorizer = v, embeddings = rows\<rparr>"
    using assms(1) by (auto simp: TextComparer_init_def split: sum.splits)
  have "\<forall>z\<in>set (zip (texts self) (embeddings self)).
          length (snd z) = length (transform (vectorizer self) input_text)"
    using fit_transform_lengths [OF fit] self
    by (auto simp: length_transform dest: set_zip_rightD)
  from similarities_of_returns [OF this assms(2), of e]
  obtain sims where sims: "similarities e self input_text False = Inr sims"
    by (auto simp: similarities_def Let_def)
  obtain c s rest where "list_sort_reverse e sims = (c, s) # rest"
    using ranked_nonempty [OF assms(1) sims] by blast
  from compare_texts_ranked [OF sims this] show ?thesis by blast
qed

lemma combined_similarity_finite:
  assumes "length ie = length te" "np_norm ie \<noteq> 0" "np_norm te \<noteq> 0" "input_text \<noteq> [] \<or> text \<noteq> []"
  shows "\<exists>r. combined_similarity e input_text text ie te False = Inr (Fl r)"
proof -
  obtain d where "cosine e ie te = Inr (Fl d)"
    using cosine_nonzero_norm [OF assms(1-3)] by blast
  then show ?thesis
    using assms(4) by (auto simp: combined_similarity_def Let_def)
qed

text \<open>With a scipy that clamps, no score of the lexical mode is NaN.\<close>

lemma clamped_score_finite:
  assumes "scipy_clamps e" and "combined_similarity e input_text text ie te False = Inr s"
  shows "s \<noteq> NaN"
proof -
  have "\<exists>r. py_clamp d = Fl r" for d
    by (cases d) (simp_all add: py_clamp_def)
  then obtain r where "cosine e ie te = Inr (Fl r)"
    using assms by (auto simp: combined_similarity_def cosine_def Let_def split: if_splits)
  then show ?thesis
    using assms(2) by (auto simp: combined_similarity_def Let_def split: if_splits)
qed

lemma clamped_similarities_finite:
  assumes "scipy_clamps e" and "similarities e self input_text False = Inr sims"
  shows "\<forall>p\<in>set sims. snd p \<noteq> NaN"
proof -
  have "list_all2 (\<lambda>z p. snd p \<noteq> NaN) (zip (texts self) (embeddings self)) sims"
    using similarities_scores [OF assms(2)]
    by (rule list_all2_mono) (auto dest: clamped_score_finite [OF assms(1)])
  then show ?thesis
    by (induction rule: list_all2_induct) auto
qed

lemma edit_similarity_self: "s \<noteq> [] \<Longrightarrow> edit_similarity s s = Inr 1"
  by (simp add: edit_similarity_def levenshtein_distance_self)

lemma edit_similarity_empty: "edit_similarity [] [] = Inl ZeroDivisionError"
  by (simp add: edit_similarity_def)

lemma lexical_similarity_zero_norm:
  "length a = length b \<Longrightarrow> np_norm a = 0 \<or> np_norm b = 0 \<Longrightarrow>
   lexical_similarity e a b = Inr (if scipy_clamps e then Fl 1 else NaN)"
  by (simp add: lexical_similarity_def cosine_zero_norm)

section \<open>Evaluations on small corpora\<close>

text \<open>
  Three-letter candidates have one n-gram, so their TF-IDF vectors have one entry and the
  scores are rational numbers.
\<close>

lemma analyze_abc: "analyze ''abc'' = [''abc'']"
  by code_simp
lemma analyze_Abc: "analyze ''Abc'' = [''abc'']"
  by code_simp
lemma analyze_aBc: "analyze ''aBc'' = [''abc'']"
  by code_simp
lemma analyze_xyz: "analyze ''xyz'' = [''xyz'']"
  by code_simp
lemma vocabulary_abc: "build_vocabulary [''abc''] = [''abc'']"
  by code_simp
lemma vocabulary_abc_abc: "build_vocabulary [''abc'', ''abc''] = [''abc'']"
  by code_simp
lemma vocabulary_abc_empty: "build_vocabulary [''abc'', []] = [''abc'']"
  by code_simp
lemma vocabulary_cases: "build_vocabulary [''Abc'', ''aBc'', ''abc''] = [''abc'']"
  by code_simp
lemma vocabulary_ab: "build_vocabulary [''ab''] = []"
  by code_simp
lemma lev_abc_abc: "levenshtein_distance ''abc'' ''abc'' = 0"
  by code_simp
lemma lev_abc_Abc: "levenshtein_distance ''abc'' ''Abc'' = 1"
  by code_simp
lemma lev_abc_aBc: "levenshtein_distance ''abc'' ''aBc'' = 1"
  by code_simp

lemma analyze_Nil: "analyze [] = []"
  by code_simp

lemma vocabulary_with_empty: "build_vocabulary [''Abc'', [], ''abc''] = [''abc'']"
  by code_simp

lemma lev_abc_Nil: "levenshtein_distance ''abc'' [] = 3"
  by code_simp

lemma lev_xyz_abc: "levenshtein_distance ''xyz'' ''abc'' = 3"
  by code_simp

lemma transform_abc: "transform \<lparr>vocabulary = [''abc''], idf = [1]\<rparr> ''abc'' = [1]"
  by (simp add: transform_def count_row_def analyze_abc l2_normalize_def np_norm_def np_dot_def)

lemma transform_Abc: "transform \<lparr>vocabulary = [''abc''], idf = [1]\<rparr> ''Abc'' = [1]"
  by (simp add: transform_def count_row_def analyze_Abc l2_normalize_def np_norm_def np_dot_def)

lemma transform_aBc: "transform \<lparr>vocabulary = [''abc''], idf = [1]\<rparr> ''aBc'' = [1]"
  by (simp add: transform_def count_row_def analyze_aBc l2_normalize_def np_norm_def np_dot_def)

lemma transform_xyz: "transform \<lparr>vocabulary = [''abc''], idf = [1]\<rparr> ''xyz'' = [0]"
  by (simp add: transform_def count_row_def analyze_xyz l2_normalize_def np_norm_def np_dot_def)

lemma init_abc:
  "TextComparer_init [''abc'']
   = Inr \<lparr>texts = [''abc''], vectorizer = \<lparr>vocabulary = [''abc''], idf = [1]\<rparr>, embeddings = [[1]]\<rparr>"
  by (simp add: TextComparer_init_def fit_transform_def vocabulary_abc smooth_idf_def
      document_frequency_def analyze_abc transform_abc)

lemma init_abc_abc:
  "TextComparer_init [''abc'', ''abc'']
   = Inr \<lparr>texts = [''abc'', ''abc''], vectorizer = \<lparr>vocabulary = [''abc''], idf = [1]\<rparr>,
          embeddings = [[1], [1]]\<rparr>"
  by (simp add: TextComparer_init_def fit_transform_def vocabulary_abc_abc smooth_idf_def
      document_frequency_def analyze_abc transform_abc)

lemma init_cases:
  "TextComparer_init [''Abc'', ''aBc'', ''abc'']
   = Inr \<lparr>texts = [''Abc'', ''aBc'', ''abc''], vectorizer = \<lparr>vocabulary = [''abc''], idf = [1]\<rparr>,
          embeddings = [[1], [1], [1]]\<rparr>"
  by (simp add: TextComparer_init_def fit_transform_def vocabulary_cases smooth_idf_def
      document_frequency_def analyze_abc analyze_Abc analyze_aBc transform_abc transform_Abc transform_aBc)

lemma vocabulary_two_empty: "build_vocabulary ['''', ''Abc'', '''', ''abc''] = [''abc'']"
  by code_simp

text \<open>With one n-gram in the vocabulary, a text that has it gets the vector \<open>[1]\<close>.\<close>

lemma transform_one_ngram:
  assumes "0 < w"
  shows "transform \<lparr>vocabulary = [''abc''], idf = [w]\<rparr> ''abc'' = [1]"
    and "transform \<lparr>vocabulary = [''abc''], idf = [w]\<rparr> ''Abc'' = [1]"
    and "transform \<lparr>vocabulary = [''abc''], idf = [w]\<rparr> '''' = [0]"
  using assms
  by (simp_all add: transform_def count_row_def analyze_Abc analyze_abc analyze_Nil
      l2_normalize_single)
    (simp add: l2_normalize_def np_norm_def np_dot_def)

lemma cosine_1_1: "cosine e [1] [1] = Inr (Fl 0)"
  by (simp add: cosine_def Let_def np_dot_def np_divide_def np_clip_def py_clamp_def)

lemma cosine_0_1: "cosine e [0] [1] = Inr (if scipy_clamps e then Fl 0 else NaN)"
  by (simp add: cosine_def Let_def np_dot_def np_divide_def np_clip_def py_clamp_def)

lemma cosine_1_0: "cosine e [1] [0] = Inr (if scipy_clamps e then Fl 0 else NaN)"
  by (simp add: cosine_def Let_def np_dot_def np_divide_def np_clip_def py_clamp_def)

lemma combined_abc_abc: "combined_similarity e ''abc'' ''abc'' [1] [1] False = Inr (Fl 1)"
  by (simp add: combined_similarity_def cosine_1_1 lev_abc_abc)

lemma combined_abc_Abc: "combined_similarity e ''abc'' ''Abc'' [1] [1] False = Inr (Fl (9 / 10))"
  by (simp add: combined_similarity_def cosine_1_1 lev_abc_Abc)

lemma combined_abc_aBc: "combined_similarity e ''abc'' ''aBc'' [1] [1] False = Inr (Fl (9 / 10))"
  by (simp add: combined_similarity_def cosine_1_1 lev_abc_aBc)

lemma combined_xyz_abc:
  "combined_similarity e ''xyz'' ''abc'' [0] [1] False = Inr (if scipy_clamps e then Fl (7 / 10) else NaN)"
  by (simp add: combined_similarity_def cosine_0_1 lev_xyz_abc)

lemma combined_abc_Nil:
  "combined_similarity e ''abc'' [] [1] [0] False = Inr (if scipy_clamps e then Fl (7 / 10) else NaN)"
  by (simp add: combined_similarity_def cosine_1_0 lev_abc_Nil)

lemma similarities_abc_abc:
  "similarities e \<lparr>texts = [''abc'', ''abc''], vectorizer = \<lparr>vocabulary = [''abc''], idf = [1]\<rparr>,
          embeddings = [[1], [1]]\<rparr> ''abc'' False = Inr [(''abc'', Fl 1), (''abc'', Fl 1)]"
  by (simp add: similarities_def transform_abc combined_abc_abc)

lemma similarities_cases:
  "similarities e \<lparr>texts = [''Abc'', ''aBc'', ''abc''], vectorizer = \<lparr>vocabulary = [''abc''], idf = [1]\<rparr>,
          embeddings = [[1], [1], [1]]\<rparr> ''abc'' False
   = Inr [(''Abc'', Fl (9 / 10)), (''aBc'', Fl (9 / 10)), (''abc'', Fl 1)]"
  by (simp add: similarities_def transform_abc combined_abc_abc combined_abc_Abc combined_abc_aBc)

section \<open>The ranking where the scores are comparable\<close>

text \<open>
  For a comparer built from a corpus and a query whose scores are all computed and none
  of them NaN, the ranking is the stable descending arrangement of the candidates, and
  \<^verbatim>\<open>compare_texts\<close> reads its result off it: the first entry is \<open>closest\<close>, and
  \<open>similar\<close> is the texts of the later entries that reach the threshold, in descending
  order of score. With a scipy that clamps, every query of the lexical mode is of that
  kind (lemma \<open>clamped_similarities_finite\<close>).
\<close>

lemma ranking_of_comparable_scores:
  assumes "TextComparer_init corpus = Inr self"
      and "similarities e self input_text advanced = Inr sims"
      and "\<forall>p\<in>set sims. snd p \<noteq> NaN"
  shows "map fst sims = corpus
       \<and> descending snd (list_sort_reverse e sims)
       \<and> (\<forall>k. filter (\<lambda>p. snd p = k) (list_sort_reverse e sims) = filter (\<lambda>p. snd p = k) sims)
       \<and> (\<exists>c s rest. list_sort_reverse e sims = (c, s) # rest
            \<and> fst (compare_texts e self input_text advanced)
               = Inr \<lparr>closest = c, score = s, similar = map fst (above_threshold e rest)\<rparr>)"
proof -
  obtain c s rest where ranked: "list_sort_reverse e sims = (c, s) # rest"
    using ranked_nonempty [OF assms(1,2)] by blast
  have stable: "list_sort_reverse e sims = stable_sort_reverse snd sims"
    using assms(3) by (rule list_sort_reverse_finite)
  show ?thesis
    using similarities_texts [OF assms(1,2)] descending_stable_sort_reverse [OF assms(3)]
      filter_stable_sort_reverse [of snd _ sims] ranked compare_texts_ranked [OF assms(2) ranked]
    unfolding stable by blast
qed

lemma similar_of_comparable_scores:
  assumes "TextComparer_init corpus = Inr self"
      and "similarities e self input_text advanced = Inr sims"
      and "\<forall>p\<in>set sims. snd p \<noteq> NaN"
  shows "\<exists>c s rest. list_sort_reverse e sims = (c, s) # rest
           \<and> fst (compare_texts e self input_text advanced)
               = Inr \<lparr>closest = c, score = s, similar = map fst (above_threshold e rest)\<rparr>
           \<and> descending snd (above_threshold e rest)
           \<and> (\<forall>p\<in>set (above_threshold e rest). fl_ge (snd p) (Fl (SIMILARITY_THRESHOLD e)))
           \<and> mset (c # map fst rest) = mset corpus"
proof -
  obtain c s rest where ranked: "list_sort_reverse e sims = (c, s) # rest"
    using ranked_nonempty [OF assms(1,2)] by blast
  have "descending snd (list_sort_reverse e sims)"
    using assms(3) by (simp add: list_sort_reverse_finite descending_stable_sort_reverse)
  then have desc: "descending snd (above_threshold e rest)"
    unfolding ranked above_threshold_def by (intro descending_filter) (rule descending_tl)
  have "mset (map fst (list_sort_reverse e sims)) = mset (map fst sims)"
    by (simp add: mset_list_sort_reverse)
  then have perm: "mset (c # map fst rest) = mset corpus"
    using similarities_texts [OF assms(1,2)] ranked by simp
  show ?thesis
    using ranked compare_texts_ranked [OF assms(2) ranked] desc perm
    by (auto simp: above_threshold_def)
qed

text \<open>
  Two candidates that tie before one that scores \<open>1\<close>: the ranking moves the last
  candidate to the front and keeps the tied ones in corpus order.
\<close>

lemma ranking_example:
  "fst (compare_texts e
         \<lparr>texts = [''Abc'', ''aBc'', ''abc''], vectorizer = \<lparr>vocabulary = [''abc''], idf = [1]\<rparr>,
           embeddings = [[1], [1], [1]]\<rparr> ''abc'' False)
     = Inr \<lparr>closest = ''abc'', score = Fl 1,
            similar = map fst (above_threshold e [(''Abc'', Fl (9 / 10)), (''aBc'', Fl (9 / 10))])\<rparr>"
proof -
  let ?sims = "[(''Abc'', Fl (9 / 10)), (''aBc'', Fl (9 / 10)), (''abc'', Fl 1)]"
  have "list_sort_reverse e ?sims = stable_sort_reverse snd ?sims"
    by (rule list_sort_reverse_finite) simp
  then have "list_sort_reverse e ?sims = [(''abc'', Fl 1), (''Abc'', Fl (9 / 10)), (''aBc'', Fl (9 / 10))]"
    by (simp add: stable_sort_reverse_def)
  from compare_texts_ranked [OF similarities_cases this] show ?thesis .
qed

text \<open>
  A corpus that holds the same text twice, queried with that text: both score \<open>1\<close>, the
  first occurrence is \<open>closest\<close> and the second is left to \<open>similar\<close>.
\<close>

lemma duplicate_example:
  "fst (compare_texts e
         \<lparr>texts = [''abc'', ''abc''], vectorizer = \<lparr>vocabulary = [''abc''], idf = [1]\<rparr>,
           embeddings = [[1], [1]]\<rparr> ''abc'' False)
   = Inr \<lparr>closest = ''abc'', score = Fl 1, similar = map fst (above_threshold e [(''abc'', Fl 1)])\<rparr>"
proof -
  let ?sims = "[(''abc'', Fl 1), (''abc'', Fl 1)]"
  have "list_sort_reverse e ?sims = stable_sort_reverse snd ?sims"
    by (rule list_sort_reverse_finite) simp
  then have "list_sort_reverse e ?sims = ?sims"
    by (simp add: stable_sort_reverse_def)
  from compare_texts_ranked [OF similarities_abc_abc this] show ?thesis .
qed

section \<open>Misordered results at any threshold below 1\<close>

lemma white_spaces_sub_no_space:
  "\<forall>c\<in>set t. \<not> is_space c \<Longrightarrow> white_spaces_sub t = t"
  by (induction t rule: white_spaces_sub.induct) simp_all

lemma transform_cong: "analyze a = analyze b \<Longrightarrow> transform v a = transform v b"
  by (simp add: transform_def count_row_def)

lemma transform_no_ngram:
  assumes "analyze doc = []"
  shows "\<forall>x\<in>set (transform v doc). x = 0"
proof -
  have "\<forall>x\<in>set (map2 (*) (map (\<lambda>t. 0) vocab) ws). x = (0::real)" for vocab :: "string list" and ws
    by (auto simp: set_zip)
  then show ?thesis
    using assms by (simp add: transform_def count_row_def l2_normalize_def np_norm_eq_0 Let_def)
qed

lemma smooth_idf_pos: "0 < smooth_idf docs t"
proof -
  have "document_frequency docs t \<le> length docs"
    by (simp add: document_frequency_def)
  then have "1 \<le> (1 + real (length docs)) / (1 + real (document_frequency docs t))"
    by (simp add: le_divide_eq)
  then have "0 \<le> ln ((1 + real (length docs)) / (1 + real (document_frequency docs t)))"
    by simp
  then show ?thesis unfolding smooth_idf_def by linarith
qed

lemma set_build_vocabulary: "set (build_vocabulary docs) = (\<Union>d\<in>set docs. set (analyze d))"
  by (simp add: build_vocabulary_def)

lemma transform_norm_nonzero:
  assumes "g \<in> set (analyze doc)" and "g \<in> set vocab"
  shows "np_norm (transform \<lparr>vocabulary = vocab, idf = map (smooth_idf docs) vocab\<rparr> doc) \<noteq> 0"
proof -
  define f where "f = (\<lambda>t. real (count_list (analyze doc) t) * smooth_idf docs t)"
  have row: "map2 (*) (count_row vocab doc) (map (smooth_idf docs) vocab) = map f vocab"
    by (induction vocab) (simp_all add: count_row_def f_def)
  have "count_list (analyze doc) g \<noteq> 0"
    using assms(1) count_list_0_iff [of "analyze doc" g] by simp
  then have "0 < count_list (analyze doc) g"
    by simp
  then have "0 < f g"
    by (simp add: f_def smooth_idf_pos)
  then have nz: "\<exists>x\<in>set (map f vocab). x \<noteq> 0"
    using assms(2) by force
  then have n: "np_norm (map f vocab) \<noteq> 0"
    by (simp add: np_norm_eq_0)
  have "\<exists>x\<in>set (map (\<lambda>x. x / np_norm (map f vocab)) (map f vocab)). x \<noteq> 0"
    using nz n by auto
  then show ?thesis
    using n by (simp add: transform_def row l2_normalize_def Let_def np_norm_eq_0 del: set_map map_map)
qed

lemma np_dot_self_nonneg: "0 \<le> np_dot v v"
proof -
  have "map2 (*) v v = map (\<lambda>x. x * x) v"
    by (induction v) simp_all
  then show ?thesis
    by (simp add: np_dot_def sum_squares_nonneg)
qed

lemma cosine_self:
  assumes "np_norm u \<noteq> 0"
  shows "cosine e u u = Inr (Fl 0)"
proof -
  have "np_dot u u \<noteq> 0"
    using assms by (simp add: np_norm_def)
  then have "0 < np_dot u u"
    using np_dot_self_nonneg [of u] by simp
  then have "np_dot u u / sqrt (np_dot u u * np_dot u u) = 1"
    by simp
  then show ?thesis
    using \<open>0 < np_dot u u\<close>
    by (simp add: cosine_def Let_def np_divide_def np_clip_def py_clamp_def)
qed

lemma levenshtein_distance_head:
  "x \<noteq> y \<Longrightarrow> levenshtein_distance (x # xs) (y # xs) = 1"
  by (simp add: levenshtein_distance_self)

lemma lower_char_A: "lower_char (CHR 0x41) = CHR 0x61"
  by code_simp

lemma lower_char_a: "lower_char (CHR 0x61) = CHR 0x61"
  by code_simp

text \<open>
  Where scipy returns NaN, every threshold below \<open>1\<close> has a corpus and a query on which
  \<open>similar\<close> is not in descending order: the corpus \<open>[, b, , a]\<close> and the query \<open>a\<close>,
  with \<open>a\<close> a run of \<open>L\<close> letters \<open>a\<close> and \<open>b\<close> the same with a capital first letter. The
  two have the same n-grams, so \<open>b\<close> scores \<open>0.7 + 0.3 * (1 - 1 / L)\<close>, which reaches the
  threshold when \<open>L\<close> is large enough, and stays before \<open>a\<close>, which scores \<open>1\<close>.
\<close>

lemma misordered_below_one:
  assumes "\<not> scipy_clamps e" and "SIMILARITY_THRESHOLD e < 1"
  shows "\<exists>corpus input_text self a b sa.
           TextComparer_init corpus = Inr self
         \<and> similarities e self input_text False = Inr [('''', NaN), (a, Fl sa), ('''', NaN), (b, Fl 1)]
         \<and> sa < 1
         \<and> \<not> descending snd [(a, Fl sa), (b, Fl (1 :: real))]
         \<and> fst (compare_texts e self input_text False)
             = Inr \<lparr>closest = '''', score = NaN, similar = [a, b]\<rparr>"
proof -
  obtain n :: nat where n: "3 / (10 * (1 - SIMILARITY_THRESHOLD e)) < real n"
    using reals_Archimedean2 by blast
  define L where "L = max 3 n"
  have L3: "3 \<le> L" by (simp add: L_def)
  have "3 / (10 * (1 - SIMILARITY_THRESHOLD e)) < real L"
    using n by (simp add: L_def)
  then have "3 < real L * (10 * (1 - SIMILARITY_THRESHOLD e))"
    using assms(2) by (simp add: divide_less_eq mult.commute)
  then have thr: "SIMILARITY_THRESHOLD e \<le> 7 / 10 + 3 / 10 * (1 - 1 / real L)"
    using L3 by (simp add: field_simps)
  define r where "r = replicate (L - 1) (CHR ''a'')"
  define a where "a = CHR ''a'' # r"
  define b where "b = CHR ''A'' # r"
  have len: "length a = L" "length b = L"
    using L3 by (simp_all add: a_def b_def r_def)
  have lower_r: "lower r = r"
    using lower_char_a by (simp add: r_def lower_def)
  have lower_a: "lower a = a" and lower_b: "lower b = a"
    using lower_r lower_char_a lower_char_A by (simp_all add: a_def b_def lower_def)
  have an: "analyze b = analyze a"
    by (simp add: analyze_def lower_a lower_b)
  have "\<forall>c\<in>set a. \<not> is_space c"
    by (simp add: a_def r_def is_space_def)
  then have "white_spaces_sub a = a"
    by (rule white_spaces_sub_no_space)
  then have ne: "analyze a \<noteq> []"
    using L3 len by (simp add: analyze_eq_Nil lower_a)
  then obtain g where g: "g \<in> set (analyze a)"
    by (cases "analyze a") auto
  define corpus where "corpus = ['''', b, '''', a]"
  define vocab where "vocab = build_vocabulary corpus"
  define v where "v = \<lparr>vocabulary = vocab, idf = map (smooth_idf corpus) vocab\<rparr>"
  define u where "u = transform v a"
  define z where "z = transform v ''''"
  define self where "self = \<lparr>texts = corpus, vectorizer = v, embeddings = [z, u, z, u]\<rparr>"
  have gv: "g \<in> set vocab"
    using g by (simp add: vocab_def corpus_def set_build_vocabulary)
  then have "vocab \<noteq> []" by auto
  have ub: "transform v b = u"
    unfolding u_def using an by (rule transform_cong)
  have init: "TextComparer_init corpus = Inr self"
    using \<open>vocab \<noteq> []\<close>
    by (simp add: TextComparer_init_def fit_transform_def Let_def self_def z_def u_def ub
        flip: vocab_def v_def) (simp add: corpus_def ub z_def u_def)
  have lens: "length z = length u"
    by (simp add: z_def u_def length_transform v_def)
  have "\<forall>x\<in>set z. x = 0"
    unfolding z_def by (rule transform_no_ngram) (rule analyze_Nil)
  then have nz: "np_norm z = 0"
    by (simp add: np_norm_eq_0)
  have nu: "np_norm u \<noteq> 0"
    unfolding u_def v_def using g gv by (rule transform_norm_nonzero)
  have cz: "cosine e u z = Inr NaN"
    using cosine_zero_norm [of u z e] lens nz assms(1) by simp
  have s_empty: "combined_similarity e a '''' u z False = Inr NaN"
    by (simp add: combined_similarity_def cz a_def)
  have lev_b: "levenshtein_distance a b = 1"
    unfolding a_def b_def by (rule levenshtein_distance_head) simp
  define sa :: real where "sa = 7 / 10 + 3 / 10 * (1 - 1 / real L)"
  have s_b: "combined_similarity e a b u u False = Inr (Fl sa)"
    using L3 by (simp add: combined_similarity_def cosine_self [OF nu] lev_b len sa_def)
  have s_a: "combined_similarity e a a u u False = Inr (Fl 1)"
    using L3 by (simp add: combined_similarity_def cosine_self [OF nu] levenshtein_distance_self len)
  let ?sims = "[('''', NaN), (b, Fl sa), ('''', NaN), (a, Fl 1)]"
  have sims: "similarities e self a False = Inr ?sims"
    by (simp add: similarities_def self_def corpus_def s_empty s_b s_a flip: u_def)
  have "0 < 1 / real L"
    using L3 by simp
  moreover have "7 / 10 + 3 / 10 * (1 - x) < 1" if "0 < x" for x :: real
    using that by (simp add: field_simps)
  ultimately have "sa < 1"
    unfolding sa_def by blast
  have sorted: "list_sort_reverse e ?sims = ?sims"
    by (rule list_sort_reverse_run) (simp add: one_run_def)
  have above: "above_threshold e [(b, Fl sa), ('''', NaN), (a, Fl 1)] = [(b, Fl sa), (a, Fl 1)]"
    using thr \<open>sa < 1\<close> by (simp add: above_threshold_def sa_def)
  from compare_texts_ranked [OF sims sorted] above
  have "fst (compare_texts e self a False) = Inr \<lparr>closest = '''', score = NaN, similar = [b, a]\<rparr>"
    by simp
  moreover have "\<not> descending snd [(b, Fl sa), (a, Fl (1 :: real))]"
    using \<open>sa < 1\<close> by (simp add: descending_def)
  ultimately show ?thesis
    using init sims \<open>sa < 1\<close> by blast
qed

section \<open>The claims\<close>

subsection \<open>C1: the combined score\<close>



subsection \<open>C2: the list of similar candidates\<close>

text \<open>
  C2, at a failing input, where scipy returns NaN for the distance to a zero vector and
  the threshold is at most \<open>0.8\<close>. In the corpus \<open>['''', ''Abc'', '''', ''abc'']\<close> the empty
  candidates have zero vectors and score NaN against the query \<open>''abc''\<close>. No comparison
  with NaN is true, so the sort finds the list in order and leaves it as it is;
  \<^verbatim>\<open>compare_texts\<close> returns the first empty candidate as \<open>closest\<close> with the score NaN,
  and \<open>similar\<close> lists \<open>''Abc''\<close>, which scores \<open>0.9\<close>, before \<open>''abc''\<close>, which scores \<open>1\<close>:
  not in descending order. This is the defect of C5 reaching the ranking.
\<close>

theorem similar_not_descending:
  assumes "\<not> scipy_clamps e" and "SIMILARITY_THRESHOLD e \<le> 4 / 5"
  shows "\<exists>self. TextComparer_init ['''', ''Abc'', '''', ''abc''] = Inr self
     \<and> similarities e self ''abc'' False
         = Inr [('''', NaN), (''Abc'', Fl (9 / 10)), ('''', NaN), (''abc'', Fl 1)]
     \<and> above_threshold e [(''Abc'', Fl (9 / 10)), ('''', NaN), (''abc'', Fl 1)]
         = [(''Abc'', Fl (9 / 10)), (''abc'', Fl 1)]
     \<and> \<not> descending snd [(''Abc'', Fl (9 / 10)), (''abc'', Fl (1 :: real))]
     \<and> fst (compare_texts e self ''abc'' False)
         = Inr \<lparr>closest = '''', score = NaN, similar = [''Abc'', ''abc'']\<rparr>"
proof -
  define w :: real where "w = ln (5 / 3) + 1"
  have w: "0 < w" by (simp add: w_def add_pos_pos)
  define v where "v = \<lparr>vocabulary = [''abc''], idf = [w]\<rparr>"
  have t: "transform v ''abc'' = [1]" "transform v ''Abc'' = [1]" "transform v [] = [0]"
    using transform_one_ngram [OF w] by (simp_all add: v_def)
  define self where "self = \<lparr>texts = ['''', ''Abc'', '''', ''abc''], vectorizer = v,
     embeddings = [[0], [1], [0], [1]]\<rparr>"
  let ?sims = "[('''', NaN), (''Abc'', Fl (9 / 10)), ('''', NaN), (''abc'', Fl 1)]"
  have "smooth_idf ['''', ''Abc'', '''', ''abc''] ''abc'' = w"
    by (simp add: smooth_idf_def document_frequency_def analyze_Abc analyze_abc analyze_Nil w_def)
  then have init: "TextComparer_init ['''', ''Abc'', '''', ''abc''] = Inr self"
    by (simp add: TextComparer_init_def fit_transform_def vocabulary_two_empty Let_def
        self_def t flip: v_def)
  have "combined_similarity e ''abc'' '''' [1] [0] False = Inr NaN"
    using assms(1) by (simp add: combined_abc_Nil)
  then have sims: "similarities e self ''abc'' False = Inr ?sims"
    by (simp add: similarities_def self_def t combined_abc_Abc combined_abc_abc)
  have sorted: "list_sort_reverse e ?sims = ?sims"
    by (rule list_sort_reverse_run) (simp add: one_run_def)
  have above: "above_threshold e [(''Abc'', Fl (9 / 10)), ('''', NaN), (''abc'', Fl 1)]
      = [(''Abc'', Fl (9 / 10)), (''abc'', Fl 1)]"
    using assms(2) by (simp add: above_threshold_def)
  have "\<not> descending snd [(''Abc'', Fl (9 / 10)), (''abc'', Fl (1 :: real))]"
    by (simp add: descending_def)
  with compare_texts_ranked [OF sims sorted] init sims above show ?thesis
    by simp
qed

text \<open>With a scipy that clips and the threshold \<open>0.5\<close>.\<close>

theorem similar_not_descending_witness:
  "\<exists>self. TextComparer_init ['''', ''Abc'', '''', ''abc''] = Inr self
     \<and> fst (compare_texts \<lparr>nlp = (\<lambda>t. []), svd = (\<lambda>m. None), scipy_clamps = False,
                SIMILARITY_THRESHOLD = 1 / 2, sort_nan_keys = (\<lambda>xs. xs)\<rparr> self ''abc'' False)
         = Inr \<lparr>closest = '''', score = NaN, similar = [''Abc'', ''abc'']\<rparr>"
proof -
  let ?e = "\<lparr>nlp = (\<lambda>t. []), svd = (\<lambda>m. None), scipy_clamps = False,
              SIMILARITY_THRESHOLD = 1 / 2, sort_nan_keys = (\<lambda>xs. xs)\<rparr>"
  have "\<not> scipy_clamps ?e" and "SIMILARITY_THRESHOLD ?e \<le> 4 / 5"
    by simp_all
  from similar_not_descending [OF this] show ?thesis
    by blast
qed

subsection \<open>C3: the ranking\<close>

text \<open>
  C3, at a failing input, where scipy returns NaN for the distance to a zero vector. In
  the corpus \<open>[''Abc'', '''', ''abc'']\<close> the empty candidate scores NaN against the query
  \<open>''abc''\<close>. The sort finds the list in order and leaves it as it is: the ranking is not
  in descending order of score, and \<^verbatim>\<open>compare_texts\<close> returns \<open>''Abc''\<close> as \<open>closest\<close>
  with the score \<open>0.9\<close> although \<open>''abc''\<close> scores \<open>1\<close>. This is the defect of C5 reaching
  the ranking; where no score is NaN the ranking is the stable descending one (lemma
  \<open>ranking_of_comparable_scores\<close>).
\<close>

theorem closest_below_best_score:
  assumes "\<not> scipy_clamps e"
  shows "\<exists>self. TextComparer_init [''Abc'', '''', ''abc''] = Inr self
     \<and> similarities e self ''abc'' False
         = Inr [(''Abc'', Fl (9 / 10)), ('''', NaN), (''abc'', Fl 1)]
     \<and> list_sort_reverse e [(''Abc'', Fl (9 / 10)), ('''', NaN), (''abc'', Fl 1)]
         = [(''Abc'', Fl (9 / 10)), ('''', NaN), (''abc'', Fl 1)]
     \<and> \<not> descending snd [(''Abc'', Fl (9 / 10)), ('''', NaN), (''abc'', Fl (1 :: real))]
     \<and> fst (compare_texts e self ''abc'' False)
         = Inr \<lparr>closest = ''Abc'', score = Fl (9 / 10),
                similar = map fst (above_threshold e [('''', NaN), (''abc'', Fl 1)])\<rparr>"
proof -
  define w :: real where "w = ln (4 / 3) + 1"
  have w: "0 < w" by (simp add: w_def add_pos_pos)
  define v where "v = \<lparr>vocabulary = [''abc''], idf = [w]\<rparr>"
  have t: "transform v ''abc'' = [1]" "transform v ''Abc'' = [1]" "transform v [] = [0]"
    using transform_one_ngram [OF w] by (simp_all add: v_def)
  define self where "self = \<lparr>texts = [''Abc'', '''', ''abc''], vectorizer = v,
     embeddings = [[1], [0], [1]]\<rparr>"
  let ?sims = "[(''Abc'', Fl (9 / 10)), ('''', NaN), (''abc'', Fl 1)]"
  have "smooth_idf [''Abc'', '''', ''abc''] ''abc'' = w"
    by (simp add: smooth_idf_def document_frequency_def analyze_Abc analyze_abc analyze_Nil w_def)
  then have init: "TextComparer_init [''Abc'', '''', ''abc''] = Inr self"
    by (simp add: TextComparer_init_def fit_transform_def vocabulary_with_empty Let_def
        self_def t flip: v_def)
  have "combined_similarity e ''abc'' '''' [1] [0] False = Inr NaN"
    using assms by (simp add: combined_abc_Nil)
  then have sims: "similarities e self ''abc'' False = Inr ?sims"
    by (simp add: similarities_def self_def t combined_abc_Abc combined_abc_abc)
  have sorted: "list_sort_reverse e ?sims = ?sims"
    by (rule list_sort_reverse_run) (simp add: one_run_def)
  have "\<not> descending snd [(''Abc'', Fl (9 / 10)), ('''', NaN), (''abc'', Fl (1 :: real))]"
    by (simp add: descending_def)
  with compare_texts_ranked [OF sims sorted] init sims sorted show ?thesis
    by simp
qed

text \<open>With a scipy that clips and the threshold \<open>0.5\<close>: \<open>similar\<close> holds the best match.\<close>

theorem closest_below_best_score_witness:
  "\<exists>self. TextComparer_init [''Abc'', '''', ''abc''] = Inr self
     \<and> fst (compare_texts \<lparr>nlp = (\<lambda>t. []), svd = (\<lambda>m. None), scipy_clamps = False,
                SIMILARITY_THRESHOLD = 1 / 2, sort_nan_keys = (\<lambda>xs. xs)\<rparr> self ''abc'' False)
         = Inr \<lparr>closest = ''Abc'', score = Fl (9 / 10), similar = [''abc'']\<rparr>"
proof -
  let ?e = "\<lparr>nlp = (\<lambda>t. []), svd = (\<lambda>m. None), scipy_clamps = False,
              SIMILARITY_THRESHOLD = 1 / 2, sort_nan_keys = (\<lambda>xs. xs)\<rparr>"
  have "\<not> scipy_clamps ?e"
    by simp
  from closest_below_best_score [OF this] show ?thesis
    by (auto simp: above_threshold_def)
qed

subsection \<open>C4: construction\<close>

text \<open>
  C4, as the code has it. \<^verbatim>\<open>TextComparer(texts)\<close> raises ValueError, the vectorizer's
  ``empty vocabulary'', exactly when no candidate, lower-cased and with its runs of
  whitespace collapsed, has three characters left, which includes the empty corpus;
  otherwise it succeeds, keeps the corpus and holds one vector per candidate. (For the
  texts of this type, code points up to 255, lower-casing changes neither the length nor
  the whitespace: lemma \<open>length_white_spaces_sub_lower\<close>.)
\<close>

theorem init_fails_iff_no_ngram:
  "(TextComparer_init corpus = Inl ValueError
      \<longleftrightarrow> (\<forall>t\<in>set corpus. length (white_spaces_sub (lower t)) < 3))
   \<and> ((\<exists>self. TextComparer_init corpus = Inr self \<and> texts self = corpus
          \<and> length (embeddings self) = length corpus)
        \<longleftrightarrow> (\<exists>t\<in>set corpus. 3 \<le> length (white_spaces_sub (lower t))))"
proof (cases "build_vocabulary corpus = []")
  case True
  then have "TextComparer_init corpus = Inl ValueError"
    by (simp add: TextComparer_init_def fit_transform_def)
  then show ?thesis
    using True by (auto simp: build_vocabulary_eq_Nil not_le)
next
  case False
  then obtain self where self: "TextComparer_init corpus = Inr self"
    by (simp add: TextComparer_init_def fit_transform_def Let_def)
  then show ?thesis
    using False TextComparer_init_fields [OF self]
    by (auto simp: build_vocabulary_eq_Nil not_less)
qed

text \<open>
  The empty corpus fails; so does a candidate of one letter and two no-break spaces,
  which collapse to one space; a corpus with one three-letter candidate succeeds.
\<close>

theorem init_fails_iff_no_ngram_witness:
  "TextComparer_init [] = Inl ValueError
   \<and> TextComparer_init [[CHR ''a'', CHR 0xA0, CHR 0xA0]] = Inl ValueError
   \<and> (\<exists>self. TextComparer_init [''abc''] = Inr self \<and> texts self = [''abc'']
          \<and> length (embeddings self) = length [''abc''])"
proof -
  have "length (white_spaces_sub (lower ''abc'')) = 3"
    and "length (white_spaces_sub (lower [CHR ''a'', CHR 0xA0, CHR 0xA0])) = 2"
    by code_simp+
  then show ?thesis
    using init_fails_iff_no_ngram [of "[]"] init_fails_iff_no_ngram [of "[''abc'']"]
      init_fails_iff_no_ngram [of "[[CHR ''a'', CHR 0xA0, CHR 0xA0]]"]
    by simp
qed

text \<open>
  The claim as stated, that every non-empty corpus can be constructed, fails for a corpus
  whose only candidate has two letters.
\<close>

theorem nonempty_corpus_fails: "[''ab''] \<noteq> [] \<and> TextComparer_init [''ab''] = Inl ValueError"
  by (simp add: TextComparer_init_def fit_transform_def vocabulary_ab)

subsection \<open>C5: a zero vector in the lexical similarity\<close>

text \<open>
  C5, at a failing input. The corpus \<open>[''abc'']\<close> and the query \<open>''xyz''\<close> share no
  n-gram: the query's vector has norm zero and the lexical similarity is not \<open>0\<close>. It is
  NaN, and \<^verbatim>\<open>compare_texts\<close> returns NaN as the score; or, with a scipy that clamps, it
  is \<open>1\<close>, the similarity of identical texts, and the score is \<open>0.7\<close>.
\<close>

theorem zero_vector_similarity:
  "\<exists>self. TextComparer_init [''abc''] = Inr self
     \<and> np_norm (transform (vectorizer self) ''xyz'') = 0
     \<and> lexical_similarity e (transform (vectorizer self) ''xyz'') (hd (embeddings self))
         = Inr (if scipy_clamps e then Fl 1 else NaN)
     \<and> lexical_similarity e (transform (vectorizer self) ''xyz'') (hd (embeddings self))
         \<noteq> Inr (Fl 0)
     \<and> fst (compare_texts e self ''xyz'' False)
         = Inr \<lparr>closest = ''abc'', score = (if scipy_clamps e then Fl (7 / 10) else NaN),
                similar = []\<rparr>"
proof -
  let ?self = "\<lparr>texts = [''abc''], vectorizer = \<lparr>vocabulary = [''abc''], idf = [1]\<rparr>,
                embeddings = [[1]]\<rparr>"
  let ?s = "if scipy_clamps e then Fl (7 / 10) else NaN"
  have sims: "similarities e ?self ''xyz'' False = Inr [(''abc'', ?s)]"
    by (simp add: similarities_def transform_xyz combined_xyz_abc)
  have "list_sort_reverse e [(''abc'', ?s)] = [(''abc'', ?s)]"
    by (rule list_sort_reverse_run) (simp add: one_run_def)
  from compare_texts_ranked [OF sims this]
  have "fst (compare_texts e ?self ''xyz'' False)
        = Inr \<lparr>closest = ''abc'', score = ?s, similar = []\<rparr>"
    by (simp add: above_threshold_def)
  then show ?thesis
    by (simp add: init_abc transform_xyz np_norm_def np_dot_def lexical_similarity_def cosine_0_1)
qed

subsection \<open>C6: the edit similarity of empty strings\<close>

text \<open>
  C6, at a failing input. With the empty string as a candidate and as the query, the
  division by the longer length raises ZeroDivisionError and \<^verbatim>\<open>compare_texts\<close> returns
  no result. (For a non-empty string the edit similarity with itself is \<open>1\<close>: lemma
  \<open>edit_similarity_self\<close>.)
\<close>

theorem empty_strings_raise:
  "\<exists>self. TextComparer_init [''abc'', ''''] = Inr self
     \<and> fst (compare_texts e self '''' False) = Inl ZeroDivisionError"
proof -
  define v where "v = \<lparr>vocabulary = [''abc''], idf = map (smooth_idf [''abc'', '''']) [''abc'']\<rparr>"
  define self where "self = \<lparr>texts = [''abc'', ''''], vectorizer = v,
     embeddings = [transform v ''abc'', transform v '''']\<rparr>"
  have init: "TextComparer_init [''abc'', ''''] = Inr self"
    by (simp add: TextComparer_init_def fit_transform_def vocabulary_abc_empty self_def v_def Let_def)
  have len: "length (transform v doc) = 1" for doc
    by (simp add: length_transform v_def)
  obtain s where s: "combined_similarity e '''' ''abc'' (transform v '''') (transform v ''abc'') False = Inr s"
    using combined_similarity_nonempty [of "transform v ''''" "transform v ''abc''" "''''" "''abc''" e]
    by (auto simp: len)
  have "combined_similarity e '''' '''' (transform v '''') (transform v '''') False = Inl ZeroDivisionError"
    by (simp add: combined_similarity_empty)
  then have "similarities e self '''' False = Inl ZeroDivisionError"
    using s by (simp add: similarities_def self_def)
  then have "fst (compare_texts e self '''' False) = Inl ZeroDivisionError"
    by (simp add: compare_texts_def)
  with init show ?thesis by blast
qed

subsection \<open>C7: the fallback of the semantic similarity\<close>

text \<open>
  C7. When one of the two strings has no token with a vector, so that its matrix has no
  rows, \<^verbatim>\<open>advanced_similarity\<close> returns \<open>0.0\<close>: a value, neither an exception nor NaN.
\<close>

theorem no_embedding_gives_zero:
  "embed_text e text1 = [] \<or> embed_text e text2 = [] \<Longrightarrow> advanced_similarity e text1 text2 = Inr (Fl 0)"
  by (auto simp: advanced_similarity_def np_size_def Let_def)

text \<open>
  A pipeline whose only token for \<open>''qq''\<close> has no vector, while every other string gets an
  embedded token.
\<close>

theorem no_embedding_gives_zero_witness:
  "embed_text \<lparr>nlp = (\<lambda>t. if t = ''qq'' then [\<lparr>has_vector = False, vector = []\<rparr>]
                        else [\<lparr>has_vector = True, vector = [1, 0]\<rparr>]),
               svd = (\<lambda>m. Some m), scipy_clamps = False, SIMILARITY_THRESHOLD = 1 / 2,
      sort_nan_keys = (\<lambda>xs. xs)\<rparr> ''qq'' = []
   \<and> advanced_similarity \<lparr>nlp = (\<lambda>t. if t = ''qq'' then [\<lparr>has_vector = False, vector = []\<rparr>]
                        else [\<lparr>has_vector = True, vector = [1, 0]\<rparr>]),
               svd = (\<lambda>m. Some m), scipy_clamps = False, SIMILARITY_THRESHOLD = 1 / 2,
      sort_nan_keys = (\<lambda>xs. xs)\<rparr> ''abc'' ''qq'' = Inr (Fl 0)"
proof -
  let ?e = "\<lparr>nlp = (\<lambda>t. if t = ''qq'' then [\<lparr>has_vector = False, vector = []\<rparr>]
                        else [\<lparr>has_vector = True, vector = [1, 0]\<rparr>]),
               svd = (\<lambda>m. Some m), scipy_clamps = False, SIMILARITY_THRESHOLD = 1 / 2,
      sort_nan_keys = (\<lambda>xs. xs)\<rparr>"
  have h: "embed_text ?e ''qq'' = []"
    by (simp add: embed_text_def)
  then have "embed_text ?e ''abc'' = [] \<or> embed_text ?e ''qq'' = []" ..
  from no_embedding_gives_zero [OF this] h show ?thesis by simp
qed

subsection \<open>C9: queries leave the comparer unchanged\<close>

text \<open>
  C9. \<^verbatim>\<open>compare_texts\<close> leaves the candidate list, the fitted vectorizer and the
  candidates' vectors as they were, whether it returns or raises; so after any sequence
  of queries the object is unchanged and every query of the sequence returns what it
  returns on the fresh object.
\<close>

theorem compare_leaves_state:
  "texts (snd (compare_texts e self input_text advanced)) = texts self
   \<and> vectorizer (snd (compare_texts e self input_text advanced)) = vectorizer self
   \<and> embeddings (snd (compare_texts e self input_text advanced)) = embeddings self
   \<and> snd (compare_many e self queries) = self
   \<and> fst (compare_many e self queries)
       = map (\<lambda>(input_text, advanced). fst (compare_texts e self input_text advanced)) queries"
proof -
  have "compare_many e self queries
        = (map (\<lambda>(input_text, advanced). fst (compare_texts e self input_text advanced)) queries, self)"
  proof (induction queries)
    case Nil
    then show ?case by simp
  next
    case (Cons q queries)
    obtain i a where q: "q = (i, a)" by (cases q)
    show ?case using Cons q by (simp add: case_prod_unfold compare_texts_state)
  qed
  then show ?thesis by (simp add: compare_texts_state)
qed

subsection \<open>C10: symmetry of the semantic similarity\<close>

text \<open>
  C10. \<^verbatim>\<open>advanced_similarity\<close> gives the same outcome for \<open>(text1, text2)\<close> and
  \<open>(text2, text1)\<close>: the same value, fallback included, or the same exception.
\<close>

theorem advanced_similarity_symmetric:
  "advanced_similarity e text1 text2 = advanced_similarity e text2 text1"
  by (auto simp: advanced_similarity_def Let_def np_dot_commute mult.commute
      split: option.splits list.splits)

end
